theory Spec2Isabelle
  imports Main
begin

section \<open>Python values at the boundary of \<open>blark/parse.py\<close>\<close>

text \<open>
  A path is the string given to \<open>pathlib.Path\<close>, with \<open>/\<close> between its components. Only
  \<open>Path.suffix\<close> and \<open>str.lower\<close> are used by the code: the suffix is the part of the
  last path component from its last dot on, empty when that dot is the first or the last
  character of the component; \<open>lower\<close> maps the letters \<open>A\<close> to \<open>Z\<close>, which is all the
  comparisons with \<open>.tsproj\<close> and \<open>.sln\<close> can see.
\<close>

type_synonym path = string

definition path_name :: "path \<Rightarrow> string" where
  "path_name p =
     rev (takeWhile (\<lambda>c. c \<noteq> CHR ''/'') (dropWhile (\<lambda>c. c = CHR ''/'') (rev p)))"

definition suffix :: "path \<Rightarrow> string" where
  "suffix p =
     (let name = path_name p;
          ext = rev (takeWhile (\<lambda>c. c \<noteq> CHR ''.'') (rev name))
      in if CHR ''.'' \<in> set name \<and> length ext + 1 < length name \<and> ext \<noteq> []
         then CHR ''.'' # ext else [])"

definition lower_char :: "char \<Rightarrow> char" where
  "lower_char c =
     (case map_of (zip ''ABCDEFGHIJKLMNOPQRSTUVWXYZ'' ''abcdefghijklmnopqrstuvwxyz'') c of
        Some l \<Rightarrow> l
      | None \<Rightarrow> c)"

definition lower :: "string \<Rightarrow> string" where
  "lower s = map lower_char s"

text \<open>
  An exception object, as far as the code looks at it: its class name, its message
  (\<open>str(ex)\<close>) and the attribute \<open>traceback\<close> that \<open>parse_project\<close> and \<open>parse\<close> set on it
  (absent, \<open>None\<close>, on an exception that was just raised). Every exception of the model is
  an instance of \<open>Exception\<close>, which is what \<open>except Exception\<close> catches; setting the
  attribute is a record update of the same object.
\<close>

record exn =
  exn_class :: string
  exn_message :: string
  traceback :: "string option"

text \<open>
  A \<open>lark.Lark\<close> engine object: \<open>engine_id\<close> tells two constructed objects apart (it is
  the number of engines built before it), \<open>options\<close> are the keyword arguments it was
  built with.
\<close>

datatype parser = Lark (engine_id: nat) (options: "(string \<times> string) list")

text \<open>
  The mutable state of the module: the global \<open>_PARSER\<close>, the number of times the engine
  constructor has run, and what has been printed (one entry for each \<open>print\<close> call).
\<close>

record pstate =
  PARSER :: "parser option"
  constructed :: nat
  stdout :: "string list"

definition py_print :: "string \<Rightarrow> pstate \<Rightarrow> pstate" where
  "py_print line s = s\<lparr>stdout := stdout s @ [line]\<rparr>"

text \<open>The result of \<open>parse_source_code\<close>: the raw \<open>lark.Tree\<close> or the transformed tree.\<close>

datatype ('t, 'a) parsed = Tree 't | Transformed 'a

text \<open>
  The units of a project as \<open>pytmc\<close> hands them over. \<open>has_get_source_code\<close> is
  \<open>hasattr(source_item, "get_source_code")\<close>, \<open>get_source_code_result\<close> what the call
  \<open>source_item.get_source_code()\<close> does: it raises, or it returns \<open>None\<close> or a string.
  \<open>filename\<close> is the attribute of that name. The three dictionaries of a PLC are
  association lists in the dictionaries' order.
\<close>

record source_item =
  has_get_source_code :: bool
  get_source_code_result :: "exn + string option"
  filename :: path

record plc =
  dut_by_name :: "(string \<times> source_item) list"
  gvl_by_name :: "(string \<times> source_item) list"
  pou_by_name :: "(string \<times> source_item) list"

record project =
  plcs :: "plc list"

text \<open>
  The collaborators the module calls and does not define: the comment extractor and the
  file reader of \<open>blark.util\<close>, the \<open>lark\<close> engine, the \<open>GrammarTransformer\<close>,
  \<open>traceback.format_exc\<close> (as a function of the exception being handled) and the two
  readers of \<open>pytmc.parser\<close>. A raised exception is \<open>Inl\<close>.
\<close>

record ('c, 't, 'a) collaborators =
  find_and_clean_comments :: "string \<Rightarrow> exn + ('c \<times> string)"
  lark_parse :: "parser \<Rightarrow> string \<Rightarrow> exn + 't"
  tree_pretty :: "'t \<Rightarrow> string"
  transformer_transform :: "'c \<Rightarrow> path \<Rightarrow> string \<Rightarrow> 't \<Rightarrow> exn + 'a"
  format_exc :: "exn \<Rightarrow> string"
  get_source_code :: "path \<Rightarrow> exn + string"
  pytmc_parse :: "path \<Rightarrow> exn + project"
  projects_from_solution :: "path \<Rightarrow> exn + path list"

type_synonym preprocessor = "string \<Rightarrow> exn + string"

type_synonym ('t, 'a) yielded = "path \<times> (exn + ('t, 'a) parsed)"

section \<open>The shared engine\<close>

definition new_parser :: "(string \<times> string) list \<Rightarrow> pstate \<Rightarrow> parser \<times> pstate" where
  "new_parser kwargs s =
     (Lark (constructed s)
        ([(''parser'', ''earley''), (''maybe_placeholders'', ''True''),
          (''propagate_positions'', ''True'')] @ kwargs),
      s\<lparr>constructed := Suc (constructed s)\<rparr>)"

definition get_parser :: "pstate \<Rightarrow> parser \<times> pstate" where
  "get_parser s =
     (case PARSER s of
        None \<Rightarrow> (let (p, s') = new_parser [] s in (p, s'\<lparr>PARSER := Some p\<rparr>))
      | Some p \<Rightarrow> (p, s))"

text \<open>A sequence of \<open>n\<close> calls of \<open>get_parser\<close>: the values returned, in order, and the state left.\<close>

fun get_parser_calls :: "nat \<Rightarrow> pstate \<Rightarrow> parser list \<times> pstate" where
  "get_parser_calls 0 s = ([], s)"
| "get_parser_calls (Suc n) s =
     (let (p, s') = get_parser s; (ps, s'') = get_parser_calls n s' in (p # ps, s''))"

section \<open>\<open>parse_source_code\<close>\<close>

definition DEFAULT_PREPROCESSORS :: "preprocessor list" where
  "DEFAULT_PREPROCESSORS = []"

text \<open>The loop \<open>for preprocessor in preprocessors\<close>; a preprocessor that raises ends it.\<close>

fun apply_preprocessors :: "preprocessor list \<Rightarrow> string \<Rightarrow> exn + string" where
  "apply_preprocessors [] processed_source = Inr processed_source"
| "apply_preprocessors (preprocessor # rest) processed_source =
     (case preprocessor processed_source of
        Inl ex \<Rightarrow> Inl ex
      | Inr out \<Rightarrow> apply_preprocessors rest out)"

definition dashes :: string where
  "dashes = replicate 31 (CHR ''-'')"

definition print_failure :: "string \<Rightarrow> exn \<Rightarrow> path \<Rightarrow> pstate \<Rightarrow> pstate" where
  "print_failure source_code ex fn s =
     py_print (''[Failure] '' @ fn)
       (py_print (exn_class ex @ '' '' @ exn_message ex)
         (py_print dashes
           (py_print source_code
             (py_print dashes
               (py_print ''[Failure] Parse failure'' s)))))"

definition print_success :: "string \<Rightarrow> string \<Rightarrow> path \<Rightarrow> pstate \<Rightarrow> pstate" where
  "print_success source_code pretty fn s =
     py_print (''[Success] End of '' @ fn)
       (py_print dashes
         (py_print pretty
           (py_print dashes
             (py_print source_code
               (py_print dashes
                 (py_print (''Successfully parsed '' @ fn @ '':'') s))))))"

text \<open>
  \<open>preprocessors = None\<close> is the call that leaves the argument at its sentinel,
  \<open>parser = None\<close> the call that leaves the parser out.
\<close>

definition parse_source_code ::
  "('c, 't, 'a) collaborators \<Rightarrow> string \<Rightarrow> int \<Rightarrow> path \<Rightarrow> preprocessor list option \<Rightarrow>
   parser option \<Rightarrow> bool \<Rightarrow> pstate \<Rightarrow> (exn + ('t, 'a) parsed) \<times> pstate" where
  "parse_source_code E source_code verbose fn preprocessors parser transform s =
     (let preprocessors' =
            (case preprocessors of None \<Rightarrow> DEFAULT_PREPROCESSORS | Some ps \<Rightarrow> ps)
      in case apply_preprocessors preprocessors' source_code of
           Inl ex \<Rightarrow> (Inl ex, s)
         | Inr processed_source \<Rightarrow>
             (case find_and_clean_comments E processed_source of
                Inl ex \<Rightarrow> (Inl ex, s)
              | Inr (comments, cleaned) \<Rightarrow>
                  (let (parser', s1) =
                         (case parser of None \<Rightarrow> get_parser s | Some p \<Rightarrow> (p, s))
                   in case lark_parse E parser' cleaned of
                        Inl ex \<Rightarrow>
                          (Inl ex,
                           if verbose > 1 then print_failure source_code ex fn s1 else s1)
                      | Inr tree \<Rightarrow>
                          (let s2 = (if verbose > 2
                                     then print_success source_code (tree_pretty E tree) fn s1
                                     else s1)
                           in if transform
                              then (case transformer_transform E comments fn source_code tree of
                                      Inl ex \<Rightarrow> (Inl ex, s2)
                                    | Inr result \<Rightarrow> (Inr (Transformed result), s2))
                              else (Inr (Tree tree), s2)))))"

definition parse_single_file ::
  "('c, 't, 'a) collaborators \<Rightarrow> path \<Rightarrow> bool \<Rightarrow> pstate \<Rightarrow> (exn + ('t, 'a) parsed) \<times> pstate" where
  "parse_single_file E fn transform s =
     (case get_source_code E fn of
        Inl ex \<Rightarrow> (Inl ex, s)
      | Inr source_code \<Rightarrow> parse_source_code E source_code 0 fn None None transform s)"

section \<open>\<open>parse_project\<close>\<close>

text \<open>
  A generator is the list of the pairs it yields, the exception that ends it (if one
  does) and the state it leaves, for a consumer that takes every pair. The value the
  generator returns at its end, the constant \<open>(True, {})\<close>, reaches no caller and is left
  out, as is \<open>proj_root\<close>, which the code computes and never uses. The argument
  \<open>transform\<close> is not passed on to \<open>parse_source_code\<close>, which therefore always transforms.
  The call of the source accessor stands before the \<open>try\<close>: an exception it raises is not
  caught and ends the generator. Only \<open>parse_source_code\<close> runs inside the \<open>try\<close>.
\<close>

definition source_items :: "plc \<Rightarrow> (string \<times> source_item) list" where
  "source_items p = dut_by_name p @ gvl_by_name p @ pou_by_name p"

definition set_traceback :: "('c, 't, 'a) collaborators \<Rightarrow> exn \<Rightarrow> exn" where
  "set_traceback E ex = ex\<lparr>traceback := Some (format_exc E ex)\<rparr>"

text \<open>The body of the inner loop, for one \<open>(name, source_item)\<close>.\<close>

definition parse_item ::
  "('c, 't, 'a) collaborators \<Rightarrow> int \<Rightarrow> string \<times> source_item \<Rightarrow> pstate \<Rightarrow>
   ('t, 'a) yielded list \<times> exn option \<times> pstate" where
  "parse_item E verbose entry s =
     (let source_item = snd entry in
      if \<not> has_get_source_code source_item then ([], None, s)
      else case get_source_code_result source_item of
             Inl ex \<Rightarrow> ([], Some ex, s)
           | Inr None \<Rightarrow> ([], None, s)
           | Inr (Some source_code) \<Rightarrow>
               if source_code = [] then ([], None, s)
               else (case parse_source_code E source_code verbose (filename source_item)
                            None None True s of
                       (Inr result, s') \<Rightarrow> ([(filename source_item, Inr result)], None, s')
                     | (Inl ex, s') \<Rightarrow>
                         ([(filename source_item, Inl (set_traceback E ex))], None, s')))"

text \<open>The two loops; an exception that leaves the body ends them.\<close>

fun parse_items ::
  "('c, 't, 'a) collaborators \<Rightarrow> int \<Rightarrow> (string \<times> source_item) list \<Rightarrow> pstate \<Rightarrow>
   ('t, 'a) yielded list \<times> exn option \<times> pstate" where
  "parse_items E verbose [] s = ([], None, s)"
| "parse_items E verbose (entry # rest) s =
     (case parse_item E verbose entry s of
        (ys, Some ex, s') \<Rightarrow> (ys, Some ex, s')
      | (ys, None, s') \<Rightarrow>
          (case parse_items E verbose rest s' of (zs, raised, s'') \<Rightarrow> (ys @ zs, raised, s'')))"

fun parse_plcs ::
  "('c, 't, 'a) collaborators \<Rightarrow> int \<Rightarrow> plc list \<Rightarrow> pstate \<Rightarrow>
   ('t, 'a) yielded list \<times> exn option \<times> pstate" where
  "parse_plcs E verbose [] s = ([], None, s)"
| "parse_plcs E verbose (p # rest) s =
     (case parse_items E verbose (source_items p) s of
        (ys, Some ex, s') \<Rightarrow> (ys, Some ex, s')
      | (ys, None, s') \<Rightarrow>
          (case parse_plcs E verbose rest s' of (zs, raised, s'') \<Rightarrow> (ys @ zs, raised, s'')))"

definition ValueError_tsproj :: exn where
  "ValueError_tsproj =
     \<lparr>exn_class = ''ValueError'', exn_message = ''Expected a .tsproj file'', traceback = None\<rparr>"

definition parse_project ::
  "('c, 't, 'a) collaborators \<Rightarrow> path \<Rightarrow> int \<Rightarrow> bool \<Rightarrow> pstate \<Rightarrow>
   ('t, 'a) yielded list \<times> exn option \<times> pstate" where
  "parse_project E tsproj_project verbose transform s =
     (if lower (suffix tsproj_project) \<noteq> ''.tsproj'' then ([], Some ValueError_tsproj, s)
      else case pytmc_parse E tsproj_project of
             Inl ex \<Rightarrow> ([], Some ex, s)
           | Inr proj \<Rightarrow> parse_plcs E verbose (plcs proj) s)"

text \<open>
  Every unit the walker enumerates, in its order; the units it does not skip, which are
  those with a source accessor that returns a string which is not empty; and the units
  whose source accessor raises.
\<close>

definition all_source_items :: "project \<Rightarrow> (string \<times> source_item) list" where
  "all_source_items proj = concat (map source_items (plcs proj))"

definition retrievable :: "source_item \<Rightarrow> bool" where
  "retrievable u =
     (has_get_source_code u \<and>
      (case get_source_code_result u of
         Inr (Some source_code) \<Rightarrow> source_code \<noteq> []
       | _ \<Rightarrow> False))"

definition accessor_raises :: "source_item \<Rightarrow> bool" where
  "accessor_raises u = (has_get_source_code u \<and> isl (get_source_code_result u))"

section \<open>\<open>parse\<close>\<close>

definition parse_file ::
  "('c, 't, 'a) collaborators \<Rightarrow> path \<Rightarrow> pstate \<Rightarrow> ('t, 'a) yielded list \<times> pstate" where
  "parse_file E fn s =
     (if lower (suffix fn) = ''.tsproj''
      then (case parse_project E fn 0 True s of
              (ys, None, s') \<Rightarrow> (ys, s')
            | (ys, Some ex, s') \<Rightarrow> (ys @ [(fn, Inl (set_traceback E ex))], s'))
      else (case parse_single_file E fn True s of
              (Inr result, s') \<Rightarrow> ([(fn, Inr result)], s')
            | (Inl ex, s') \<Rightarrow> ([(fn, Inl (set_traceback E ex))], s')))"

fun parse_files ::
  "('c, 't, 'a) collaborators \<Rightarrow> path list \<Rightarrow> pstate \<Rightarrow> ('t, 'a) yielded list \<times> pstate" where
  "parse_files E [] s = ([], s)"
| "parse_files E (fn # rest) s =
     (let (ys, s') = parse_file E fn s;
          (zs, s'') = parse_files E rest s'
      in (ys @ zs, s''))"

definition parse ::
  "('c, 't, 'a) collaborators \<Rightarrow> path \<Rightarrow> pstate \<Rightarrow>
   ('t, 'a) yielded list \<times> exn option \<times> pstate" where
  "parse E path s =
     (case (if lower (suffix path) = ''.tsproj'' then Inr [path]
            else if lower (suffix path) = ''.sln'' then projects_from_solution E path
            else Inr [path]) of
        Inl ex \<Rightarrow> ([], Some ex, s)
      | Inr filenames \<Rightarrow> (let (ys, s') = parse_files E filenames s in (ys, None, s')))"

section \<open>Lookup in the summaries (\<open>blark/sphinxdomain.py\<close>)\<close>

text \<open>
  \<open>summary.CodeSummary\<close> is used through its attribute \<open>function_blocks\<close> only, a
  dictionary from names to function-block summaries; a dictionary whose order matters is
  an association list. The cache maps a file name to the summary of that file.

  The exception of a miss is \<open>KeyError(f"{name!r} not found")\<close>. Python's \<open>repr\<close> of a
  string is a parameter, \<open>py_repr\<close>: the message is built with it, and \<open>str\<close> of a
  \<open>KeyError\<close> is the \<open>repr\<close> of its argument.
\<close>

record 'fb CodeSummary =
  function_blocks :: "(string \<times> 'fb) list"

record 'fb BlarkSphinxCache =
  cache :: "(path \<times> 'fb CodeSummary) list"

definition KeyError_not_found :: "(string \<Rightarrow> string) \<Rightarrow> string \<Rightarrow> exn" where
  "KeyError_not_found py_repr name =
     \<lparr>exn_class = ''KeyError'', exn_message = py_repr (py_repr name @ '' not found''),
      traceback = None\<rparr>"

fun find_in_values ::
  "(string \<Rightarrow> string) \<Rightarrow> 'fb CodeSummary list \<Rightarrow> string \<Rightarrow> exn + 'fb" where
  "find_in_values py_repr [] name = Inl (KeyError_not_found py_repr name)"
| "find_in_values py_repr (item # rest) name =
     (case map_of (function_blocks item) name of
        Some fb \<Rightarrow> Inr fb
      | None \<Rightarrow> find_in_values py_repr rest name)"

definition find_by_name ::
  "(string \<Rightarrow> string) \<Rightarrow> 'fb BlarkSphinxCache \<Rightarrow> string \<Rightarrow> exn + 'fb" where
  "find_by_name py_repr self name = find_in_values py_repr (map snd (cache self)) name"

section \<open>The specification's words, for comparison\<close>

text \<open>
  The specification on preprocessing: each preprocessor receives the previous stage's
  text and returns new text, applied in order. A stage that has failed stays failed.
\<close>

definition preprocessed_in_order :: "preprocessor list \<Rightarrow> string \<Rightarrow> exn + string" where
  "preprocessed_in_order ps text =
     foldl (\<lambda>stage p. case stage of Inl ex \<Rightarrow> Inl ex | Inr t \<Rightarrow> p t) (Inr text) ps"

text \<open>
  Modelled from the spec: \<open>summary.CodeSummary.from_source\<close>, the whole of
  \<open>blark/summary.py\<close>, is not among the sources; \<open>summarize\<close> in \<open>blark/parse.py\<close> only
  passes its argument on to it. The specification calls the summary a derived, read-only
  index, a pure projection of the source units: a mapping from the name of a function
  block or program to its summary, built by walking the declared function blocks and
  programs of the unit. The unit is taken as the list of its declared function blocks
  with their summaries, in source order; a name is entered as a dictionary assignment
  does it (a new key goes last, a known key keeps its place and takes the new value).
\<close>

fun dict_set :: "(string \<times> 'v) list \<Rightarrow> string \<Rightarrow> 'v \<Rightarrow> (string \<times> 'v) list" where
  "dict_set [] k v = [(k, v)]"
| "dict_set (entry # d) k v =
     (if fst entry = k then (k, v) # d else entry # dict_set d k v)"

definition from_source :: "(string \<times> 'fb) list \<Rightarrow> 'fb CodeSummary" where
  "from_source code =
     \<lparr>function_blocks = foldl (\<lambda>d entry. dict_set d (fst entry) (snd entry)) [] code\<rparr>"

definition summarize :: "(string \<times> 'fb) list \<Rightarrow> pstate \<Rightarrow> 'fb CodeSummary \<times> pstate" where
  "summarize code s = (from_source code, s)"

section \<open>Sample inputs\<close>

text \<open>
  A small instance of the collaborators, on which the theorems below are run: the
  extractor rejects one text, the engine another, the transformer a third, and everything
  else passes through unchanged. Four projects can be read: one of three units whose
  second is malformed, one whose malformed unit is followed by a unit with an empty
  source, one with a unit with an empty source between two good ones, and one with a
  unit whose source accessor raises between two good ones.
\<close>

definition sample_comment_error :: exn where
  "sample_comment_error =
     \<lparr>exn_class = ''ValueError'', exn_message = ''unterminated comment'', traceback = None\<rparr>"

definition sample_syntax_error :: exn where
  "sample_syntax_error =
     \<lparr>exn_class = ''UnexpectedCharacters'', exn_message = ''No terminal matches'',
      traceback = None\<rparr>"

definition sample_transform_error :: exn where
  "sample_transform_error =
     \<lparr>exn_class = ''VisitError'', exn_message = ''Error trying to process rule'',
      traceback = None\<rparr>"

definition sample_preprocessor_error :: exn where
  "sample_preprocessor_error =
     \<lparr>exn_class = ''RuntimeError'', exn_message = ''macro not defined'', traceback = None\<rparr>"

definition sample_io_error :: exn where
  "sample_io_error =
     \<lparr>exn_class = ''FileNotFoundError'', exn_message = ''No such file or directory'',
      traceback = None\<rparr>"

definition unit_a :: source_item where
  "unit_a = \<lparr>has_get_source_code = True,
             get_source_code_result = Inr (Some ''PROGRAM a END_PROGRAM''),
             filename = ''plc/POUs/a.TcPOU''\<rparr>"

definition unit_b :: source_item where
  "unit_b = \<lparr>has_get_source_code = True,
             get_source_code_result = Inr (Some ''PROGRAM b END_PROGRAN''),
             filename = ''plc/POUs/b.TcPOU''\<rparr>"

definition unit_c :: source_item where
  "unit_c = \<lparr>has_get_source_code = True,
             get_source_code_result = Inr (Some ''PROGRAM c END_PROGRAM''),
             filename = ''plc/POUs/c.TcPOU''\<rparr>"

definition unit_empty :: source_item where
  "unit_empty = \<lparr>has_get_source_code = True,
                 get_source_code_result = Inr (Some []),
                 filename = ''plc/GVLs/empty.TcGVL''\<rparr>"

definition unit_unreadable :: source_item where
  "unit_unreadable = \<lparr>has_get_source_code = True,
                      get_source_code_result = Inl sample_io_error,
                      filename = ''plc/DUTs/unreadable.TcDUT''\<rparr>"

definition three_units :: project where
  "three_units =
     \<lparr>plcs = [\<lparr>dut_by_name = [], gvl_by_name = [],
               pou_by_name = [(''a'', unit_a), (''b'', unit_b), (''c'', unit_c)]\<rparr>]\<rparr>"

definition failure_then_gap :: project where
  "failure_then_gap =
     \<lparr>plcs = [\<lparr>dut_by_name = [], gvl_by_name = [],
               pou_by_name = [(''b'', unit_b)]\<rparr>,
              \<lparr>dut_by_name = [], gvl_by_name = [(''empty'', unit_empty)],
               pou_by_name = []\<rparr>]\<rparr>"

definition gap_between :: project where
  "gap_between =
     \<lparr>plcs = [\<lparr>dut_by_name = [(''a'', unit_a)], gvl_by_name = [(''empty'', unit_empty)],
               pou_by_name = [(''c'', unit_c)]\<rparr>]\<rparr>"

definition unreadable_between :: project where
  "unreadable_between =
     \<lparr>plcs = [\<lparr>dut_by_name = [(''a'', unit_a)], gvl_by_name = [(''unreadable'', unit_unreadable)],
               pou_by_name = [(''c'', unit_c)]\<rparr>]\<rparr>"

definition sample :: "(string list, string, string) collaborators" where
  "sample =
     \<lparr>find_and_clean_comments =
        (\<lambda>t. if t = ''(* open'' then Inl sample_comment_error else Inr ([], t)),
      lark_parse =
        (\<lambda>p t. if t = ''PROGRAM b END_PROGRAN'' then Inl sample_syntax_error else Inr t),
      tree_pretty = (\<lambda>t. t),
      transformer_transform =
        (\<lambda>comments fn source_code tree.
           if tree = ''PROGRAM odd END_PROGRAM'' then Inl sample_transform_error
           else Inr tree),
      format_exc = (\<lambda>ex. ''Traceback (most recent call last): '' @ exn_class ex),
      get_source_code =
        (\<lambda>fn. if fn = ''missing.TcPOU'' then Inl sample_io_error
              else Inr ''PROGRAM a END_PROGRAM''),
      pytmc_parse =
        (\<lambda>p. if p = ''three.tsproj'' then Inr three_units
             else if p = ''gap.tsproj'' then Inr failure_then_gap
             else if p = ''between.tsproj'' then Inr gap_between
             else if p = ''unreadable.tsproj'' then Inr unreadable_between
             else Inl sample_io_error),
      projects_from_solution = (\<lambda>p. Inr [''three.tsproj''])\<rparr>"

text \<open>\<open>repr\<close> of a string of printable characters without quotes and backslashes.\<close>

definition quoted :: "string \<Rightarrow> string" where
  "quoted name = [CHR 0x27] @ name @ [CHR 0x27]"

definition sample_cache :: "string BlarkSphinxCache" where
  "sample_cache =
     \<lparr>cache =
        [(''plc/POUs/a.TcPOU'', \<lparr>function_blocks = [(''FB_Valve'', ''valve in a'')]\<rparr>),
         (''plc/POUs/b.TcPOU'',
          \<lparr>function_blocks = [(''FB_Pump'', ''pump in b''), (''FB_Motor'', ''motor in b'')]\<rparr>),
         (''plc/POUs/c.TcPOU'', \<lparr>function_blocks = [(''FB_Motor'', ''motor in c'')]\<rparr>)]\<rparr>"

definition fresh :: pstate where
  "fresh = \<lparr>PARSER = None, constructed = 0, stdout = []\<rparr>"

section \<open>The shared engine is built once\<close>

lemma get_parser_set: "PARSER s = Some p \<Longrightarrow> get_parser s = (p, s)"
  by (simp add: get_parser_def)

lemma get_parser_sets: "PARSER (snd (get_parser s)) = Some (fst (get_parser s))"
  by (simp add: get_parser_def new_parser_def split: option.splits)

lemma get_parser_calls_set:
  "PARSER s = Some p \<Longrightarrow> get_parser_calls n s = (replicate n p, s)"
  by (induction n) (simp_all add: get_parser_set)

lemma get_parser_calls_Suc:
  "get_parser_calls (Suc n) s =
     (replicate (Suc n) (fst (get_parser s)), snd (get_parser s))"
proof -
  obtain p s' where g: "get_parser s = (p, s')" by (cases "get_parser s")
  with get_parser_sets [of s] have "PARSER s' = Some p" by simp
  then have "get_parser_calls n s' = (replicate n p, s')" by (rule get_parser_calls_set)
  with g show ?thesis by simp
qed

text \<open>
  C3. In every sequence of \<open>n\<close> calls of \<open>get_parser\<close>, from any state, every call returns
  the same engine object, the one the first call returns: the global if it is set, a newly
  built engine otherwise. The constructor runs once if the global was unset and there is
  a call, and not at all otherwise; after the first call the global holds that engine.
\<close>

theorem get_parser_built_once:
  "fst (get_parser_calls n s) = replicate n (fst (get_parser s)) \<and>
   constructed (snd (get_parser_calls n s)) =
     (if PARSER s = None \<and> 0 < n then Suc (constructed s) else constructed s) \<and>
   PARSER (snd (get_parser_calls n s)) =
     (if n = 0 then PARSER s else Some (fst (get_parser s))) \<and>
   fst (get_parser s) =
     (case PARSER s of None \<Rightarrow> fst (new_parser [] s) | Some p \<Rightarrow> p)"
proof (cases n)
  case 0
  then show ?thesis by (simp add: get_parser_def new_parser_def split: option.splits)
next
  case (Suc m)
  then show ?thesis
    by (simp only: get_parser_calls_Suc)
       (simp add: get_parser_def new_parser_def split: option.splits)
qed

section \<open>Preprocessing comes first, in order\<close>

lemma foldl_failed:
  "foldl (\<lambda>stage p. case stage of Inl ex \<Rightarrow> Inl ex | Inr t \<Rightarrow> p t) (Inl ex) ps = Inl ex"
  by (induction ps) simp_all

lemma apply_preprocessors_in_order:
  "apply_preprocessors ps src = preprocessed_in_order ps src"
  unfolding preprocessed_in_order_def
proof (induction ps arbitrary: src)
  case Nil
  show ?case by simp
next
  case (Cons p ps)
  show ?case
  proof (cases "p src")
    case (Inl ex)
    then show ?thesis by (simp add: foldl_failed)
  next
    case (Inr t)
    then show ?thesis by (simp add: Cons.IH)
  qed
qed

text \<open>
  C6. \<open>parse_source_code\<close> hands the comment extractor the text that
  \<open>preprocessed_in_order\<close> makes of the input with the preprocessors given: they run before
  the extraction, in the order given, each on the text the one before returned (the last
  two conjuncts spell the order out), and one that raises ends the call with its
  exception, before the extractor is called. With the argument left out the list is empty
  and the extractor is handed the input text itself. The engine then parses the text the
  extractor returns, and the transformer gets the extractor's comments and the original
  \<open>source_code\<close>.
\<close>

theorem preprocessors_before_extraction:
  "parse_source_code E source_code verbose fn preprocessors parser transform s =
     (case preprocessed_in_order (case preprocessors of None \<Rightarrow> [] | Some ps \<Rightarrow> ps)
             source_code of
        Inl ex \<Rightarrow> (Inl ex, s)
      | Inr processed \<Rightarrow>
          (case find_and_clean_comments E processed of
             Inl ex \<Rightarrow> (Inl ex, s)
           | Inr (comments, cleaned) \<Rightarrow>
               (let (engine, s1) = (case parser of None \<Rightarrow> get_parser s | Some p \<Rightarrow> (p, s))
                in case lark_parse E engine cleaned of
                     Inl ex \<Rightarrow>
                       (Inl ex, if 1 < verbose then print_failure source_code ex fn s1 else s1)
                   | Inr tree \<Rightarrow>
                       (let s2 = (if 2 < verbose
                                  then print_success source_code (tree_pretty E tree) fn s1
                                  else s1)
                        in if transform
                           then (case transformer_transform E comments fn source_code tree of
                                   Inl ex \<Rightarrow> (Inl ex, s2)
                                 | Inr result \<Rightarrow> (Inr (Transformed result), s2))
                           else (Inr (Tree tree), s2))))) \<and>
   preprocessed_in_order [] source_code = Inr source_code \<and>
   preprocessed_in_order (qs @ [q]) source_code =
     (case preprocessed_in_order qs source_code of
        Inl ex \<Rightarrow> Inl ex
      | Inr processed \<Rightarrow> q processed)"
proof -
  have a: "apply_preprocessors
             (case preprocessors of None \<Rightarrow> DEFAULT_PREPROCESSORS | Some ps \<Rightarrow> ps) source_code =
           preprocessed_in_order (case preprocessors of None \<Rightarrow> [] | Some ps \<Rightarrow> ps) source_code"
    by (simp add: apply_preprocessors_in_order DEFAULT_PREPROCESSORS_def split: option.splits)
  have c: "preprocessed_in_order [] source_code = Inr source_code"
    by (simp add: preprocessed_in_order_def)
  have d: "preprocessed_in_order (qs @ [q]) source_code =
     (case preprocessed_in_order qs source_code of
        Inl ex \<Rightarrow> Inl ex
      | Inr processed \<Rightarrow> q processed)"
    by (simp add: preprocessed_in_order_def)
  show ?thesis
    unfolding parse_source_code_def Let_def a
    using c d by (simp split: sum.splits prod.splits)
qed

text \<open>
  Two preprocessors that do not commute, run on the sample collaborators: the second
  sees what the first returned, and the tree is that of the text after both.
\<close>

lemma preprocessors_in_order_sample:
  "fst (parse_source_code sample ''a'' 0 ''a.TcPOU''
          (Some [\<lambda>t. Inr (t @ ''b''), \<lambda>t. Inr (t @ t)]) None False fresh) =
     Inr (Tree ''abab'')"
  by code_simp

section \<open>A parser passed in leaves the shared one alone\<close>

text \<open>
  C9. A call of \<open>parse_source_code\<close> that is given a parser \<open>p\<close> leaves the global
  \<open>_PARSER\<close> as it was and builds no engine, whatever the call's outcome; and its result
  is the same whatever the global holds, so only \<open>p\<close> is used.
\<close>

theorem explicit_parser_leaves_global:
  "PARSER (snd (parse_source_code E source_code verbose fn preprocessors (Some p) transform s))
     = PARSER s \<and>
   constructed (snd (parse_source_code E source_code verbose fn preprocessors (Some p) transform s))
     = constructed s \<and>
   fst (parse_source_code E source_code verbose fn preprocessors (Some p) transform
          (s\<lparr>PARSER := g, constructed := k\<rparr>))
     = fst (parse_source_code E source_code verbose fn preprocessors (Some p) transform s)"
  by (simp add: parse_source_code_def print_failure_def print_success_def py_print_def Let_def
      split: sum.splits prod.splits option.splits)

section \<open>The walk over a project\<close>

lemma parse_items_append:
  "parse_items E v (us @ vs) s =
     (case parse_items E v us s of
        (ys, Some ex, s') \<Rightarrow> (ys, Some ex, s')
      | (ys, None, s') \<Rightarrow>
          (case parse_items E v vs s' of (zs, raised, s'') \<Rightarrow> (ys @ zs, raised, s'')))"
  by (induction us arbitrary: s) (auto split: prod.splits option.splits)

lemma parse_plcs_flat:
  "parse_plcs E v ps s = parse_items E v (concat (map source_items ps)) s"
  by (induction ps arbitrary: s) (auto simp: parse_items_append split: prod.splits option.splits)

lemma parse_project_items:
  "lower (suffix p) = ''.tsproj'' \<Longrightarrow> pytmc_parse E p = Inr proj \<Longrightarrow>
   parse_project E p v tr s = parse_items E v (all_source_items proj) s"
  by (simp add: parse_project_def all_source_items_def parse_plcs_flat)

lemma parse_item_skip:
  "\<not> has_get_source_code (snd entry) \<or> get_source_code_result (snd entry) = Inr None \<or>
   get_source_code_result (snd entry) = Inr (Some []) \<Longrightarrow>
   parse_item E v entry s = ([], None, s)"
  by (auto simp: parse_item_def Let_def)

lemma parse_item_retrievable:
  "has_get_source_code (snd entry) \<Longrightarrow> get_source_code_result (snd entry) = Inr (Some src) \<Longrightarrow>
   src \<noteq> [] \<Longrightarrow>
   parse_item E v entry s =
     (case parse_source_code E src v (filename (snd entry)) None None True s of
        (Inr result, s') \<Rightarrow> ([(filename (snd entry), Inr result)], None, s')
      | (Inl ex, s') \<Rightarrow> ([(filename (snd entry), Inl (set_traceback E ex))], None, s'))"
  by (simp add: parse_item_def Let_def)

lemma parse_item_no_raise:
  "\<not> accessor_raises (snd entry) \<Longrightarrow>
   fst (snd (parse_item E v entry s)) = None \<and>
   map fst (fst (parse_item E v entry s)) =
     (if retrievable (snd entry) then [filename (snd entry)] else [])"
  by (auto simp: parse_item_def retrievable_def accessor_raises_def Let_def
      split: option.splits prod.splits sum.splits)

lemma parse_items_no_raise:
  "\<forall>e \<in> set items. \<not> accessor_raises (snd e) \<Longrightarrow>
   fst (snd (parse_items E v items s)) = None \<and>
   map fst (fst (parse_items E v items s)) =
     map (\<lambda>e. filename (snd e)) (filter (\<lambda>e. retrievable (snd e)) items)"
proof (induction items arbitrary: s)
  case Nil
  show ?case by simp
next
  case (Cons entry rest)
  obtain ys r s' where a: "parse_item E v entry s = (ys, r, s')"
    by (cases "parse_item E v entry s")
  obtain zs r' s'' where b: "parse_items E v rest s' = (zs, r', s'')"
    by (cases "parse_items E v rest s'")
  from Cons.prems have "\<not> accessor_raises (snd entry)" by simp
  from parse_item_no_raise [OF this, of E v s] a
  have c: "r = None"
    "map fst ys = (if retrievable (snd entry) then [filename (snd entry)] else [])" by simp_all
  from Cons.prems have "\<forall>e \<in> set rest. \<not> accessor_raises (snd e)" by simp
  from Cons.IH [OF this, of s'] b
  have d: "r' = None"
    "map fst zs = map (\<lambda>e. filename (snd e)) (filter (\<lambda>e. retrievable (snd e)) rest)"
    by simp_all
  from a b c d show ?case by simp
qed

text \<open>
  C7. A unit of the project that has no source accessor, or whose accessor returns
  \<open>None\<close> or the empty string, is left out of the stream: \<open>parse_project\<close> does exactly
  what the walk over the other units does, in their order. It yields the same pairs, none
  of them for the unit, and ends in the same way and in the same state.
\<close>

theorem unit_without_source_omitted:
  assumes "lower (suffix p) = ''.tsproj''" and "pytmc_parse E p = Inr proj"
    and "all_source_items proj = us @ (name, u) # vs"
    and "\<not> has_get_source_code u \<or> get_source_code_result u = Inr None \<or>
         get_source_code_result u = Inr (Some [])"
  shows "parse_project E p v tr s = parse_items E v (us @ vs) s"
proof -
  from assms(4) have skip: "\<And>t. parse_item E v (name, u) t = ([], None, t)"
    by (intro parse_item_skip) simp
  have "parse_items E v (us @ (name, u) # vs) s = parse_items E v (us @ vs) s"
    by (simp add: parse_items_append skip split: prod.splits option.splits)
  with assms(1-3) show ?thesis by (simp add: parse_project_items)
qed

text \<open>
  C1, amended. When the walk reaches a unit and \<open>parse_source_code\<close> raises on it,
  \<open>parse_project\<close> yields the unit's file name with the exception and goes on with the
  units after it: the stream is the pairs of the units before, that pair, and what the
  walk over the units after it yields. If none of the source accessors of those units
  raises, nothing is raised and they get a pair each, in order, when their source can be
  retrieved; a unit without source gets none.
\<close>

theorem failure_does_not_stop_walk:
  assumes "lower (suffix p) = ''.tsproj''" and "pytmc_parse E p = Inr proj"
    and "all_source_items proj = us @ (name, u) # vs"
    and "has_get_source_code u" and "get_source_code_result u = Inr (Some src)" and "src \<noteq> []"
    and "parse_items E v us s = (ys, None, s1)"
    and "parse_source_code E src v (filename u) None None True s1 = (Inl ex, s2)"
    and "parse_items E v vs s2 = (zs, raised, s3)"
  shows "parse_project E p v tr s =
           (ys @ (filename u, Inl (set_traceback E ex)) # zs, raised, s3) \<and>
         ((\<forall>e \<in> set vs. \<not> accessor_raises (snd e)) \<longrightarrow>
            raised = None \<and>
            map fst zs = map (\<lambda>e. filename (snd e)) (filter (\<lambda>e. retrievable (snd e)) vs))"
proof -
  have item: "parse_item E v (name, u) s1 =
                ([(filename u, Inl (set_traceback E ex))], None, s2)"
    using parse_item_retrievable [of "(name, u)" src E v s1] assms(4,5,6,8) by simp
  have "parse_items E v (us @ (name, u) # vs) s =
          (ys @ (filename u, Inl (set_traceback E ex)) # zs, raised, s3)"
    using assms(7,9) item by (simp add: parse_items_append)
  with assms(1-3) have a: "parse_project E p v tr s =
           (ys @ (filename u, Inl (set_traceback E ex)) # zs, raised, s3)"
    by (simp add: parse_project_items)
  have b: "raised = None \<and>
      map fst zs = map (\<lambda>e. filename (snd e)) (filter (\<lambda>e. retrievable (snd e)) vs)"
    if "\<forall>e \<in> set vs. \<not> accessor_raises (snd e)"
    using parse_items_no_raise [OF that, of E v s2] assms(9) by simp
  from a b show ?thesis by blast
qed

text \<open>
  C2, amended. If no source accessor of the project raises, the stream of
  \<open>parse_project\<close> holds one pair for each unit whose source can be retrieved, in the
  order of the units and under the unit's file name, and no pair for a unit without
  source, and nothing is raised. The walk yields at most one pair for a unit. That pair
  holds the result of \<open>parse_source_code\<close> when that returns and the exception when it
  raises: one value of the sum, never both.
\<close>

theorem one_pair_per_retrievable_unit:
  assumes "lower (suffix p) = ''.tsproj''" and "pytmc_parse E p = Inr proj"
    and "\<forall>e \<in> set (all_source_items proj). \<not> accessor_raises (snd e)"
  shows "map fst (fst (parse_project E p v tr s)) =
           map (\<lambda>e. filename (snd e))
             (filter (\<lambda>e. retrievable (snd e)) (all_source_items proj)) \<and>
         fst (snd (parse_project E p v tr s)) = None \<and>
         fst (parse_item E v (name, u) t) =
           (case get_source_code_result u of
              Inr (Some src) \<Rightarrow>
                if retrievable u
                then [(filename u,
                       map_sum (set_traceback E) id
                         (fst (parse_source_code E src v (filename u) None None True t)))]
                else []
            | _ \<Rightarrow> [])"
proof -
  have a: "map fst (fst (parse_project E p v tr s)) =
           map (\<lambda>e. filename (snd e))
             (filter (\<lambda>e. retrievable (snd e)) (all_source_items proj))"
    and b: "fst (snd (parse_project E p v tr s)) = None"
    using assms(1,2) parse_items_no_raise [OF assms(3), of E v s]
    by (simp_all add: parse_project_items)
  have c: "fst (parse_item E v (name, u) t) =
           (case get_source_code_result u of
              Inr (Some src) \<Rightarrow>
                if retrievable u
                then [(filename u,
                       map_sum (set_traceback E) id
                         (fst (parse_source_code E src v (filename u) None None True t)))]
                else []
            | _ \<Rightarrow> [])"
    by (auto simp: parse_item_def retrievable_def Let_def
        split: option.splits prod.splits sum.splits)
  from a b c show ?thesis by simp
qed


text \<open>
  The project of three units whose second is malformed: three pairs, the second an
  error, the first and the third results.
\<close>

theorem failure_does_not_stop_walk_witness:
  "parse_project sample ''three.tsproj'' 0 True fresh =
     ([(''plc/POUs/a.TcPOU'', Inr (Transformed ''PROGRAM a END_PROGRAM'')),
       (''plc/POUs/b.TcPOU'', Inl (set_traceback sample sample_syntax_error)),
       (''plc/POUs/c.TcPOU'', Inr (Transformed ''PROGRAM c END_PROGRAM''))],
      None, snd (get_parser fresh)) \<and>
   \<not> accessor_raises unit_c \<and> retrievable unit_c"
proof -
  have h1: "lower (suffix ''three.tsproj'') = ''.tsproj''" by code_simp
  have h2: "pytmc_parse sample ''three.tsproj'' = Inr three_units" by code_simp
  have h3: "all_source_items three_units = [(''a'', unit_a)] @ (''b'', unit_b) # [(''c'', unit_c)]"
    by code_simp
  have h4: "has_get_source_code unit_b" by code_simp
  have h5: "get_source_code_result unit_b = Inr (Some ''PROGRAM b END_PROGRAN'')" by code_simp
  have h6: "''PROGRAM b END_PROGRAN'' \<noteq> []" by simp
  have h7: "parse_items sample 0 [(''a'', unit_a)] fresh =
              ([(''plc/POUs/a.TcPOU'', Inr (Transformed ''PROGRAM a END_PROGRAM''))], None,
               snd (get_parser fresh))"
    by code_simp
  have h8: "parse_source_code sample ''PROGRAM b END_PROGRAN'' 0 (filename unit_b) None None True
              (snd (get_parser fresh)) = (Inl sample_syntax_error, snd (get_parser fresh))"
    by code_simp
  have h9: "parse_items sample 0 [(''c'', unit_c)] (snd (get_parser fresh)) =
              ([(''plc/POUs/c.TcPOU'', Inr (Transformed ''PROGRAM c END_PROGRAM''))], None,
               snd (get_parser fresh))"
    by code_simp
  have f: "filename unit_b = ''plc/POUs/b.TcPOU''" by code_simp
  have g: "\<not> accessor_raises unit_c \<and> retrievable unit_c" by code_simp
  from failure_does_not_stop_walk [OF h1 h2 h3 h4 h5 h6 h7 h8 h9, of True] g
  show ?thesis by (simp add: f)
qed

text \<open>
  As first stated, C1 promises a pair for every remaining unit. In this project the unit
  after the failing one has an empty source: the stream ends with the error.
\<close>

theorem pair_for_every_remaining_unit_counterexample:
  "all_source_items failure_then_gap = [(''b'', unit_b), (''empty'', unit_empty)] \<and>
   pytmc_parse sample ''gap.tsproj'' = Inr failure_then_gap \<and>
   fst (parse_source_code sample ''PROGRAM b END_PROGRAN'' 0 (filename unit_b) None None True fresh)
     = Inl sample_syntax_error \<and>
   fst (parse_project sample ''gap.tsproj'' 0 True fresh) =
     [(filename unit_b, Inl (set_traceback sample sample_syntax_error))] \<and>
   fst (snd (parse_project sample ''gap.tsproj'' 0 True fresh)) = None \<and>
   filename unit_empty \<notin> fst ` set (fst (parse_project sample ''gap.tsproj'' 0 True fresh))"
  by code_simp

theorem unit_without_source_omitted_witness:
  "all_source_items gap_between =
     [(''a'', unit_a)] @ (''empty'', unit_empty) # [(''c'', unit_c)] \<and>
   get_source_code_result unit_empty = Inr (Some []) \<and>
   parse_project sample ''between.tsproj'' 0 True fresh =
     ([(''plc/POUs/a.TcPOU'', Inr (Transformed ''PROGRAM a END_PROGRAM'')),
       (''plc/POUs/c.TcPOU'', Inr (Transformed ''PROGRAM c END_PROGRAM''))], None,
      snd (get_parser fresh))"
proof -
  have h1: "lower (suffix ''between.tsproj'') = ''.tsproj''" by code_simp
  have h2: "pytmc_parse sample ''between.tsproj'' = Inr gap_between" by code_simp
  have h3: "all_source_items gap_between =
              [(''a'', unit_a)] @ (''empty'', unit_empty) # [(''c'', unit_c)]"
    by code_simp
  have h4: "get_source_code_result unit_empty = Inr (Some [])" by code_simp
  then have h4': "\<not> has_get_source_code unit_empty \<or>
         get_source_code_result unit_empty = Inr None \<or>
         get_source_code_result unit_empty = Inr (Some [])" by simp
  have r: "parse_items sample 0 ([(''a'', unit_a)] @ [(''c'', unit_c)]) fresh =
     ([(''plc/POUs/a.TcPOU'', Inr (Transformed ''PROGRAM a END_PROGRAM'')),
       (''plc/POUs/c.TcPOU'', Inr (Transformed ''PROGRAM c END_PROGRAM''))], None,
      snd (get_parser fresh))"
    by code_simp
  from unit_without_source_omitted [OF h1 h2 h3 h4', of 0 True fresh] r h3 h4
  show ?thesis by simp
qed

text \<open>
  As first stated, C2 promises exactly one pair for every unit the walker enumerates.
  A unit with an empty source is enumerated and gets none.
\<close>

theorem exactly_one_pair_counterexample:
  "pytmc_parse sample ''between.tsproj'' = Inr gap_between \<and>
   (''empty'', unit_empty) \<in> set (all_source_items gap_between) \<and>
   fst (snd (parse_project sample ''between.tsproj'' 0 True fresh)) = None \<and>
   filter (\<lambda>y. fst y = filename unit_empty)
     (fst (parse_project sample ''between.tsproj'' 0 True fresh)) = []"
  by code_simp

theorem one_pair_per_retrievable_unit_witness:
  "map fst (fst (parse_project sample ''three.tsproj'' 0 True fresh)) =
     [''plc/POUs/a.TcPOU'', ''plc/POUs/b.TcPOU'', ''plc/POUs/c.TcPOU''] \<and>
   fst (snd (parse_project sample ''three.tsproj'' 0 True fresh)) = None \<and>
   fst (parse_item sample 0 (''b'', unit_b) fresh) =
     [(''plc/POUs/b.TcPOU'', Inl (set_traceback sample sample_syntax_error))] \<and>
   fst (parse_item sample 0 (''a'', unit_a) fresh) =
     [(''plc/POUs/a.TcPOU'', Inr (Transformed ''PROGRAM a END_PROGRAM''))] \<and>
   fst (parse_item sample 0 (''empty'', unit_empty) fresh) = []"
proof -
  have h1: "lower (suffix ''three.tsproj'') = ''.tsproj''" by code_simp
  have h2: "pytmc_parse sample ''three.tsproj'' = Inr three_units" by code_simp
  have h3: "\<forall>e \<in> set (all_source_items three_units). \<not> accessor_raises (snd e)" by code_simp
  have e: "map (\<lambda>e. filename (snd e)) (filter (\<lambda>e. retrievable (snd e)) (all_source_items three_units))
     = [''plc/POUs/a.TcPOU'', ''plc/POUs/b.TcPOU'', ''plc/POUs/c.TcPOU'']"
    by code_simp
  have b: "(case get_source_code_result unit_b of
              Inr (Some src) \<Rightarrow> if retrievable unit_b
                then [(filename unit_b, map_sum (set_traceback sample) id
                         (fst (parse_source_code sample src 0 (filename unit_b) None None True fresh)))]
                else []
            | _ \<Rightarrow> []) = [(''plc/POUs/b.TcPOU'', Inl (set_traceback sample sample_syntax_error))]"
    by code_simp
  have a: "(case get_source_code_result unit_a of
              Inr (Some src) \<Rightarrow> if retrievable unit_a
                then [(filename unit_a, map_sum (set_traceback sample) id
                         (fst (parse_source_code sample src 0 (filename unit_a) None None True fresh)))]
                else []
            | _ \<Rightarrow> []) = [(''plc/POUs/a.TcPOU'', Inr (Transformed ''PROGRAM a END_PROGRAM''))]"
    by code_simp
  have c: "(case get_source_code_result unit_empty of
              Inr (Some src) \<Rightarrow> if retrievable unit_empty
                then [(filename unit_empty, map_sum (set_traceback sample) id
                         (fst (parse_source_code sample src 0 (filename unit_empty) None None True fresh)))]
                else []
            | _ \<Rightarrow> []) = []"
    by code_simp
  from one_pair_per_retrievable_unit [OF h1 h2 h3, of 0 True fresh "''b''" unit_b fresh]
       one_pair_per_retrievable_unit [OF h1 h2 h3, of 0 True fresh "''a''" unit_a fresh]
       one_pair_per_retrievable_unit [OF h1 h2 h3, of 0 True fresh "''empty''" unit_empty fresh]
       e a b c
  show ?thesis by simp
qed

text \<open>
  A source accessor that raises is outside the hypotheses above. It ends the walk of
  \<open>parse_project\<close>, whatever comes after it; under \<open>parse\<close> the exception is yielded with
  the path of the project.
\<close>

lemma raising_accessor_ends_walk:
  "parse_project sample ''unreadable.tsproj'' 0 True fresh =
     ([(''plc/POUs/a.TcPOU'', Inr (Transformed ''PROGRAM a END_PROGRAM''))],
      Some sample_io_error, snd (get_parser fresh)) \<and>
   fst (parse sample ''unreadable.tsproj'' fresh) =
     [(''plc/POUs/a.TcPOU'', Inr (Transformed ''PROGRAM a END_PROGRAM'')),
      (''unreadable.tsproj'', Inl (set_traceback sample sample_io_error))]"
  by code_simp

section \<open>The errors in the stream\<close>

lemma parse_item_errors:
  assumes "(fn, Inl e) \<in> set (fst (parse_item E v entry s))"
  shows "\<exists>src ex. get_source_code_result (snd entry) = Inr (Some src) \<and>
           fn = filename (snd entry) \<and>
           fst (parse_source_code E src v fn None None True s) = Inl ex \<and>
           e = ex\<lparr>traceback := Some (format_exc E ex)\<rparr>"
  using assms
  by (auto simp: parse_item_def Let_def set_traceback_def
      split: option.splits prod.splits sum.splits if_splits)

lemma parse_items_errors:
  "(fn, Inl e) \<in> set (fst (parse_items E v items s)) \<Longrightarrow>
   \<exists>name u src t ex. (name, u) \<in> set items \<and> get_source_code_result u = Inr (Some src) \<and>
      fn = filename u \<and> fst (parse_source_code E src v fn None None True t) = Inl ex \<and>
      e = ex\<lparr>traceback := Some (format_exc E ex)\<rparr>"
proof (induction items arbitrary: s)
  case Nil
  then show ?case by simp
next
  case (Cons entry rest)
  obtain ys r s' where a: "parse_item E v entry s = (ys, r, s')"
    by (cases "parse_item E v entry s")
  obtain zs r' s'' where b: "parse_items E v rest s' = (zs, r', s'')"
    by (cases "parse_items E v rest s'")
  from Cons.prems a b have "(fn, Inl e) \<in> set ys \<or> (fn, Inl e) \<in> set zs"
    by (auto split: option.splits)
  then show ?case
  proof
    assume "(fn, Inl e) \<in> set ys"
    with a have "(fn, Inl e) \<in> set (fst (parse_item E v entry s))" by simp
    from parse_item_errors [OF this] obtain src ex where
      "get_source_code_result (snd entry) = Inr (Some src)" "fn = filename (snd entry)"
      "fst (parse_source_code E src v fn None None True s) = Inl ex"
      "e = ex\<lparr>traceback := Some (format_exc E ex)\<rparr>" by blast
    moreover have "(fst entry, snd entry) \<in> set (entry # rest)" by simp
    ultimately show ?thesis by blast
  next
    assume "(fn, Inl e) \<in> set zs"
    with b have "(fn, Inl e) \<in> set (fst (parse_items E v rest s'))" by simp
    from Cons.IH [OF this] obtain name u src t ex where
      "(name, u) \<in> set rest" "get_source_code_result u = Inr (Some src)" "fn = filename u"
      "fst (parse_source_code E src v fn None None True t) = Inl ex"
      "e = ex\<lparr>traceback := Some (format_exc E ex)\<rparr>" by blast
    moreover then have "(name, u) \<in> set (entry # rest)" by simp
    ultimately show ?thesis by blast
  qed
qed

lemma parse_project_errors:
  assumes "(fn, Inl e) \<in> set (fst (parse_project E p v tr s))"
  shows "\<exists>proj name u src t ex. pytmc_parse E p = Inr proj \<and>
      (name, u) \<in> set (all_source_items proj) \<and> get_source_code_result u = Inr (Some src) \<and>
      fn = filename u \<and> fst (parse_source_code E src v fn None None True t) = Inl ex \<and>
      e = ex\<lparr>traceback := Some (format_exc E ex)\<rparr>"
proof (cases "lower (suffix p) = ''.tsproj''")
  case False
  with assms show ?thesis by (simp add: parse_project_def)
next
  case True
  show ?thesis
  proof (cases "pytmc_parse E p")
    case (Inl ex)
    with assms True show ?thesis by (simp add: parse_project_def)
  next
    case (Inr proj)
    with assms True
    have "(fn, Inl e) \<in> set (fst (parse_items E v (all_source_items proj) s))"
      by (simp add: parse_project_def parse_plcs_flat all_source_items_def)
    from parse_items_errors [OF this] Inr show ?thesis by blast
  qed
qed

lemma parse_file_errors:
  assumes "(fn, Inl e) \<in> set (fst (parse_file E f s))"
  shows "\<exists>ex. e = ex\<lparr>traceback := Some (format_exc E ex)\<rparr> \<and>
     ((\<exists>p proj name u src t. pytmc_parse E p = Inr proj \<and>
          (name, u) \<in> set (all_source_items proj) \<and>
          get_source_code_result u = Inr (Some src) \<and>
          fn = filename u \<and> fst (parse_source_code E src 0 fn None None True t) = Inl ex) \<or>
      (\<exists>t. fst (snd (parse_project E fn 0 True t)) = Some ex) \<or>
      (\<exists>t. fst (parse_single_file E fn True t) = Inl ex))"
proof (cases "lower (suffix f) = ''.tsproj''")
  case True
  obtain ys r s' where pp: "parse_project E f 0 True s = (ys, r, s')"
    by (cases "parse_project E f 0 True s")
  show ?thesis
  proof (cases "(fn, Inl e) \<in> set ys")
    case True
    with pp have "(fn, Inl e) \<in> set (fst (parse_project E f 0 True s))" by simp
    from parse_project_errors [OF this] show ?thesis by blast
  next
    case False
    with assms \<open>lower (suffix f) = ''.tsproj''\<close> pp
    obtain ex where "r = Some ex" "fn = f" "e = set_traceback E ex"
      by (auto simp: parse_file_def split: option.splits)
    with pp have "fst (snd (parse_project E fn 0 True s)) = Some ex" by simp
    with \<open>e = set_traceback E ex\<close> show ?thesis unfolding set_traceback_def by blast
  qed
next
  case False
  with assms obtain ex where "fn = f" "fst (parse_single_file E f True s) = Inl ex"
    "e = set_traceback E ex"
    by (auto simp: parse_file_def split: prod.splits sum.splits)
  then show ?thesis unfolding set_traceback_def by blast
qed

lemma parse_files_errors:
  "(fn, Inl e) \<in> set (fst (parse_files E fs s)) \<Longrightarrow>
   \<exists>f t. f \<in> set fs \<and> (fn, Inl e) \<in> set (fst (parse_file E f t))"
proof (induction fs arbitrary: s)
  case Nil
  then show ?case by simp
next
  case (Cons f rest)
  obtain ys s' where a: "parse_file E f s = (ys, s')" by (cases "parse_file E f s")
  obtain zs s'' where b: "parse_files E rest s' = (zs, s'')" by (cases "parse_files E rest s'")
  from Cons.prems a b have "(fn, Inl e) \<in> set ys \<or> (fn, Inl e) \<in> set zs" by simp
  then show ?case
  proof
    assume "(fn, Inl e) \<in> set ys"
    with a have "(fn, Inl e) \<in> set (fst (parse_file E f s))" by simp
    then show ?thesis by auto
  next
    assume "(fn, Inl e) \<in> set zs"
    with b have "(fn, Inl e) \<in> set (fst (parse_files E rest s'))" by simp
    from Cons.IH [OF this] show ?thesis by auto
  qed
qed

lemma parse_errors:
  assumes "(fn, Inl e) \<in> set (fst (parse E path s))"
  shows "\<exists>ex. e = ex\<lparr>traceback := Some (format_exc E ex)\<rparr> \<and>
     ((\<exists>p proj name u src t. pytmc_parse E p = Inr proj \<and>
          (name, u) \<in> set (all_source_items proj) \<and>
          get_source_code_result u = Inr (Some src) \<and>
          fn = filename u \<and> fst (parse_source_code E src 0 fn None None True t) = Inl ex) \<or>
      (\<exists>t. fst (snd (parse_project E fn 0 True t)) = Some ex) \<or>
      (\<exists>t. fst (parse_single_file E fn True t) = Inl ex))"
proof -
  from assms obtain fs t where "(fn, Inl e) \<in> set (fst (parse_files E fs t))"
    by (auto simp: parse_def split_def Let_def split: sum.splits if_splits)
  from parse_files_errors [OF this] obtain f t' where
    "(fn, Inl e) \<in> set (fst (parse_file E f t'))" by blast
  from parse_file_errors [OF this] show ?thesis .
qed

text \<open>
  C10. An error that \<open>parse_project\<close> yields is the exception \<open>parse_source_code\<close>
  raised on a unit of the project, with its attribute \<open>traceback\<close> set to what
  \<open>format_exc\<close> gives for that exception, under the file name of that unit. An error that
  \<open>parse\<close> yields is such a pair of a project, or the exception that \<open>parse_project\<close> or
  \<open>parse_single_file\<close> raised for a file, with the attribute set in the same way, under
  the name of that file. Nothing else of the exception is changed.
\<close>

theorem yielded_errors_carry_traceback:
  "((fn, Inl e) \<in> set (fst (parse_project E p v tr s)) \<longrightarrow>
      (\<exists>proj name u src t ex. pytmc_parse E p = Inr proj \<and>
          (name, u) \<in> set (all_source_items proj) \<and>
          get_source_code_result u = Inr (Some src) \<and>
          fn = filename u \<and> fst (parse_source_code E src v fn None None True t) = Inl ex \<and>
          e = ex\<lparr>traceback := Some (format_exc E ex)\<rparr>)) \<and>
   ((fn, Inl e) \<in> set (fst (parse E path s)) \<longrightarrow>
      (\<exists>ex. e = ex\<lparr>traceback := Some (format_exc E ex)\<rparr> \<and>
         ((\<exists>p proj name u src t. pytmc_parse E p = Inr proj \<and>
              (name, u) \<in> set (all_source_items proj) \<and>
              get_source_code_result u = Inr (Some src) \<and>
              fn = filename u \<and> fst (parse_source_code E src 0 fn None None True t) = Inl ex) \<or>
          (\<exists>t. fst (snd (parse_project E fn 0 True t)) = Some ex) \<or>
          (\<exists>t. fst (parse_single_file E fn True t) = Inl ex))))"
  using parse_project_errors [of fn e E p v tr s] parse_errors [of fn e E path s]
  by blast

theorem yielded_errors_carry_traceback_witness:
  "(''plc/POUs/b.TcPOU'', Inl (set_traceback sample sample_syntax_error))
     \<in> set (fst (parse_project sample ''three.tsproj'' 0 True fresh)) \<and>
   (\<exists>proj name u src t ex. pytmc_parse sample ''three.tsproj'' = Inr proj \<and>
          (name, u) \<in> set (all_source_items proj) \<and>
          get_source_code_result u = Inr (Some src) \<and>
          ''plc/POUs/b.TcPOU'' = filename u \<and>
          fst (parse_source_code sample src 0 ''plc/POUs/b.TcPOU'' None None True t) = Inl ex \<and>
          set_traceback sample sample_syntax_error =
            ex\<lparr>traceback := Some (format_exc sample ex)\<rparr>) \<and>
   (''missing.TcPOU'', Inl (set_traceback sample sample_io_error))
     \<in> set (fst (parse sample ''missing.TcPOU'' fresh)) \<and>
   (\<exists>ex. set_traceback sample sample_io_error = ex\<lparr>traceback := Some (format_exc sample ex)\<rparr> \<and>
         ((\<exists>p proj name u src t. pytmc_parse sample p = Inr proj \<and>
              (name, u) \<in> set (all_source_items proj) \<and>
              get_source_code_result u = Inr (Some src) \<and>
              ''missing.TcPOU'' = filename u \<and>
              fst (parse_source_code sample src 0 ''missing.TcPOU'' None None True t) = Inl ex) \<or>
          (\<exists>t. fst (snd (parse_project sample ''missing.TcPOU'' 0 True t)) = Some ex) \<or>
          (\<exists>t. fst (parse_single_file sample ''missing.TcPOU'' True t) = Inl ex)))"
proof -
  have m1: "(''plc/POUs/b.TcPOU'', Inl (set_traceback sample sample_syntax_error))
     \<in> set (fst (parse_project sample ''three.tsproj'' 0 True fresh))"
    by code_simp
  have m2: "(''missing.TcPOU'', Inl (set_traceback sample sample_io_error))
     \<in> set (fst (parse sample ''missing.TcPOU'' fresh))"
    by code_simp
  from m1 m2
    yielded_errors_carry_traceback [of "''plc/POUs/b.TcPOU''"
      "set_traceback sample sample_syntax_error" sample "''three.tsproj''" 0 True fresh
      "''missing.TcPOU''"]
    yielded_errors_carry_traceback [of "''missing.TcPOU''"
      "set_traceback sample sample_io_error" sample "''three.tsproj''" 0 True fresh
      "''missing.TcPOU''"]
  show ?thesis by blast
qed


section \<open>Lookup by name\<close>

lemma find_in_values_miss:
  "\<forall>x \<in> set xs. map_of (function_blocks x) name = None \<Longrightarrow>
   find_in_values py_repr (xs @ ys) name = find_in_values py_repr ys name"
  by (induction xs) simp_all

text \<open>
  C5. \<open>find_by_name\<close> goes through the summaries of the cache in their order and returns
  the record that the first summary holding the name has under it, whatever later
  summaries hold under the same name; when no summary holds the name it raises the
  lookup error, a \<open>KeyError\<close> saying that the name was not found.
\<close>

theorem find_by_name_first_match:
  "(map snd (cache self) = before @ item # after \<and>
    (\<forall>x \<in> set before. map_of (function_blocks x) name = None) \<and>
    map_of (function_blocks item) name = Some fb \<longrightarrow>
      find_by_name py_repr self name = Inr fb) \<and>
   ((\<forall>x \<in> set (map snd (cache self)). map_of (function_blocks x) name = None) \<longrightarrow>
      find_by_name py_repr self name = Inl (KeyError_not_found py_repr name))"
proof -
  have a: "find_by_name py_repr self name = Inr fb"
    if "map snd (cache self) = before @ item # after"
      and "\<forall>x \<in> set before. map_of (function_blocks x) name = None"
      and "map_of (function_blocks item) name = Some fb"
    using that find_in_values_miss [of before name py_repr "item # after"]
    by (simp add: find_by_name_def)
  have b: "find_by_name py_repr self name = Inl (KeyError_not_found py_repr name)"
    if "\<forall>x \<in> set (map snd (cache self)). map_of (function_blocks x) name = None"
    using that find_in_values_miss [of "map snd (cache self)" name py_repr "[]"]
    by (simp add: find_by_name_def)
  from a b show ?thesis by blast
qed

theorem find_by_name_first_match_witness:
  "find_by_name quoted sample_cache ''FB_Motor'' = Inr ''motor in b'' \<and>
   find_by_name quoted sample_cache ''FB_Fan'' =
     Inl \<lparr>exn_class = ''KeyError'',
          exn_message = quoted (quoted ''FB_Fan'' @ '' not found''),
          traceback = None\<rparr>"
proof -
  have h1: "map snd (cache sample_cache) =
      [\<lparr>function_blocks = [(''FB_Valve'', ''valve in a'')]\<rparr>] @
      \<lparr>function_blocks = [(''FB_Pump'', ''pump in b''), (''FB_Motor'', ''motor in b'')]\<rparr> #
      [\<lparr>function_blocks = [(''FB_Motor'', ''motor in c'')]\<rparr>]"
    by (simp add: sample_cache_def)
  have h2: "\<forall>x \<in> set [\<lparr>function_blocks = [(''FB_Valve'', ''valve in a'')]\<rparr>].
      map_of (function_blocks x) ''FB_Motor'' = None"
    by simp
  have h3: "map_of (function_blocks
      \<lparr>function_blocks = [(''FB_Pump'', ''pump in b''), (''FB_Motor'', ''motor in b'')]\<rparr>)
      ''FB_Motor'' = Some ''motor in b''"
    by simp
  have h4: "\<forall>x \<in> set (map snd (cache sample_cache)). map_of (function_blocks x) ''FB_Fan'' = None"
    by (simp add: sample_cache_def)
  have k: "KeyError_not_found quoted ''FB_Fan'' =
     \<lparr>exn_class = ''KeyError'',
      exn_message = quoted (quoted ''FB_Fan'' @ '' not found''),
      traceback = None\<rparr>"
    by (simp add: KeyError_not_found_def)
  from find_by_name_first_match [of sample_cache _ _ _ "''FB_Motor''" "''motor in b''" quoted]
    h1 h2 h3
  have a: "find_by_name quoted sample_cache ''FB_Motor'' = Inr ''motor in b''" by blast
  from find_by_name_first_match [of sample_cache "[]" _ "[]" "''FB_Fan''" _ quoted] h4
  have b: "find_by_name quoted sample_cache ''FB_Fan'' = Inl (KeyError_not_found quoted ''FB_Fan'')"
    by blast
  from a b k show ?thesis by simp
qed

section \<open>A failing stage\<close>

text \<open>
  C4, amended. When a stage of \<open>parse_source_code\<close> raises (a preprocessor, the comment
  extractor, the engine's parse, or the transformer when \<open>transform\<close> is set), the call
  raises that very exception: nothing is added to it, and the identifier \<open>fn\<close> in
  particular is not attached by \<open>parse_source_code\<close>. The first two stages leave the
  state as it was; a failing parse is reported on the standard output, with \<open>fn\<close>, when
  \<open>verbose\<close> is above 1.
\<close>
theorem stage_error_propagates_unchanged:
  assumes "ps = (case pre of None \<Rightarrow> DEFAULT_PREPROCESSORS | Some qs \<Rightarrow> qs)"
    and "p = fst (case parser of None \<Rightarrow> get_parser s | Some q \<Rightarrow> (q, s))"
  shows "(apply_preprocessors ps src = Inl ex \<longrightarrow>
            parse_source_code E src v fn pre parser tr s = (Inl ex, s)) \<and>
         (apply_preprocessors ps src = Inr t \<and> find_and_clean_comments E t = Inl ex \<longrightarrow>
            parse_source_code E src v fn pre parser tr s = (Inl ex, s)) \<and>
         (apply_preprocessors ps src = Inr t \<and> find_and_clean_comments E t = Inr (c, t') \<and>
          lark_parse E p t' = Inl ex \<longrightarrow>
            fst (parse_source_code E src v fn pre parser tr s) = Inl ex) \<and>
         (apply_preprocessors ps src = Inr t \<and> find_and_clean_comments E t = Inr (c, t') \<and>
          lark_parse E p t' = Inr tree \<and> transformer_transform E c fn src tree = Inl ex \<longrightarrow>
            fst (parse_source_code E src v fn pre parser True s) = Inl ex)"
  using assms
  by (auto simp: parse_source_code_def Let_def split: prod.splits option.splits)

theorem stage_error_propagates_unchanged_witness:
  "fst (parse_source_code sample ''PROGRAM a END_PROGRAM'' 0 ''a.TcPOU''
          (Some [\<lambda>t. Inr (t @ '' ''), \<lambda>t. Inl sample_preprocessor_error]) None True fresh)
     = Inl sample_preprocessor_error \<and>
   fst (parse_source_code sample ''(* open'' 0 ''a.TcPOU'' None None True fresh)
     = Inl sample_comment_error \<and>
   fst (parse_source_code sample ''PROGRAM b END_PROGRAN'' 0 ''a.TcPOU'' None None True fresh)
     = Inl sample_syntax_error \<and>
   fst (parse_source_code sample ''PROGRAM odd END_PROGRAM'' 0 ''a.TcPOU'' None None True fresh)
     = Inl sample_transform_error"
proof -
  let ?ps = "[\<lambda>t. Inr (t @ '' ''), \<lambda>t. Inl sample_preprocessor_error] :: preprocessor list"
  have p: "fst (get_parser fresh) =
      fst (case None of None \<Rightarrow> get_parser fresh | Some q \<Rightarrow> (q, fresh))"
    by simp
  have d: "[] = (case None of None \<Rightarrow> DEFAULT_PREPROCESSORS | Some qs \<Rightarrow> qs)"
    by (simp add: DEFAULT_PREPROCESSORS_def)
  have q: "?ps = (case Some ?ps of None \<Rightarrow> DEFAULT_PREPROCESSORS | Some qs \<Rightarrow> qs)"
    by simp
  have a1: "apply_preprocessors ?ps ''PROGRAM a END_PROGRAM'' = Inl sample_preprocessor_error"
    by simp
  have b1: "apply_preprocessors [] ''(* open'' = Inr ''(* open''" by simp
  have b2: "find_and_clean_comments sample ''(* open'' = Inl sample_comment_error"
    by (simp add: sample_def)
  have c1: "apply_preprocessors [] ''PROGRAM b END_PROGRAN'' = Inr ''PROGRAM b END_PROGRAN''"
    by simp
  have c2: "find_and_clean_comments sample ''PROGRAM b END_PROGRAN'' =
              Inr ([], ''PROGRAM b END_PROGRAN'')"
    by (simp add: sample_def)
  have c3: "lark_parse sample (fst (get_parser fresh)) ''PROGRAM b END_PROGRAN'' =
              Inl sample_syntax_error"
    by (simp add: sample_def)
  have d1: "apply_preprocessors [] ''PROGRAM odd END_PROGRAM'' = Inr ''PROGRAM odd END_PROGRAM''"
    by simp
  have d2: "find_and_clean_comments sample ''PROGRAM odd END_PROGRAM'' =
              Inr ([], ''PROGRAM odd END_PROGRAM'')"
    by (simp add: sample_def)
  have d3: "lark_parse sample (fst (get_parser fresh)) ''PROGRAM odd END_PROGRAM'' =
              Inr ''PROGRAM odd END_PROGRAM''"
    by (simp add: sample_def)
  have d4: "transformer_transform sample [] ''a.TcPOU'' ''PROGRAM odd END_PROGRAM''
              ''PROGRAM odd END_PROGRAM'' = Inl sample_transform_error"
    by (simp add: sample_def)
  from stage_error_propagates_unchanged [OF q p, of "''PROGRAM a END_PROGRAM''"
         sample_preprocessor_error sample 0 "''a.TcPOU''" True] a1
  have r1: "fst (parse_source_code sample ''PROGRAM a END_PROGRAM'' 0 ''a.TcPOU''
          (Some ?ps) None True fresh) = Inl sample_preprocessor_error"
    by simp
  from stage_error_propagates_unchanged [OF d p, of "''(* open''"
         sample_comment_error sample 0 "''a.TcPOU''" True "''(* open''"] b1 b2
  have r2: "fst (parse_source_code sample ''(* open'' 0 ''a.TcPOU'' None None True fresh)
     = Inl sample_comment_error"
    by simp
  from stage_error_propagates_unchanged [OF d p, of "''PROGRAM b END_PROGRAN''"
         sample_syntax_error sample 0 "''a.TcPOU''" True "''PROGRAM b END_PROGRAN''"
         "[]" "''PROGRAM b END_PROGRAN''"] c1 c2 c3
  have r3: "fst (parse_source_code sample ''PROGRAM b END_PROGRAN'' 0 ''a.TcPOU'' None None True fresh)
     = Inl sample_syntax_error"
    by simp
  from stage_error_propagates_unchanged [OF d p, of "''PROGRAM odd END_PROGRAM''"
         sample_transform_error sample 0 "''a.TcPOU''" True "''PROGRAM odd END_PROGRAM''"
         "[]" "''PROGRAM odd END_PROGRAM''" "''PROGRAM odd END_PROGRAM''"] d1 d2 d3 d4
  have r4: "fst (parse_source_code sample ''PROGRAM odd END_PROGRAM'' 0 ''a.TcPOU'' None None True fresh)
     = Inl sample_transform_error"
    by simp
  from r1 r2 r3 r4 show ?thesis by simp
qed

text \<open>
  As first stated, C4 has the error annotated with the identifier of the unit. The same
  malformed text under two identifiers raises one and the same exception, the engine's
  own, whose fields name neither.
\<close>

theorem identifier_annotation_counterexample:
  "lark_parse sample (fst (get_parser fresh)) ''PROGRAM b END_PROGRAN'' = Inl sample_syntax_error \<and>
   fst (parse_source_code sample ''PROGRAM b END_PROGRAN'' 0 ''plc/POUs/b.TcPOU'' None None True fresh)
     = Inl sample_syntax_error \<and>
   fst (parse_source_code sample ''PROGRAM b END_PROGRAN'' 0 ''plc/POUs/other.TcPOU'' None None True
          fresh)
     = Inl sample_syntax_error \<and>
   exn_class sample_syntax_error = ''UnexpectedCharacters'' \<and>
   exn_message sample_syntax_error = ''No terminal matches'' \<and>
   traceback sample_syntax_error = None"
  by code_simp


section \<open>Summaries\<close>

text \<open>
  C8. Against \<open>from_source\<close> as modelled from the specification: summarizing the same
  unit twice, the second time in the state the first call left, gives the same index, with
  the same keys in the same order; the index does not depend on the state and the call
  leaves the state as it was.
\<close>
theorem summarize_twice_same_index:
  "fst (summarize code (snd (summarize code s))) = fst (summarize code s) \<and>
   map fst (function_blocks (fst (summarize code (snd (summarize code s))))) =
     map fst (function_blocks (fst (summarize code s))) \<and>
   fst (summarize code s') = fst (summarize code s) \<and>
   snd (summarize code s) = s"
  by (simp add: summarize_def)

end
